theory Spec2Isabelle
  imports Main "HOL-Library.Sublist"
begin

section \<open>Strings\<close>

text \<open>
  Source strings are sequences of code units; the model has the code units 0..255 of
  \<^typ>\<open>char\<close>, that is ASCII and Latin-1. On these \<open>String.prototype.toLowerCase\<close> works unit
  by unit: it maps \<open>A\<close>..\<open>Z\<close> (65..90) and the Latin-1 capitals (192..222, the
  multiplication sign 215 apart) to the letter 32 places further on, and leaves every
  other unit alone.
\<close>

definition toLowerCaseChar :: "char \<Rightarrow> char" where
  "toLowerCaseChar c =
     (let n = (of_char c :: nat)
      in if (65 \<le> n \<and> n \<le> 90) \<or> (192 \<le> n \<and> n \<le> 222 \<and> n \<noteq> 215)
         then char_of (n + 32) else c)"

definition toLowerCase :: "string \<Rightarrow> string" where
  "toLowerCase s = map toLowerCaseChar s"

text \<open>
  \<open>String.prototype.includes\<close>: does \<open>needle\<close> occur in \<open>hay\<close> as a contiguous run of
  characters? The search tries every start position from the left.
\<close>

fun str_includes :: "string \<Rightarrow> string \<Rightarrow> bool" where
  "str_includes [] needle = (needle = [])"
| "str_includes (c # cs) needle = (prefix needle (c # cs) \<or> str_includes cs needle)"

section \<open>Error classifier\<close>

text \<open>
  A caught value is \<open>None\<close> when it is falsy (\<open>null\<close>, \<open>undefined\<close>) and otherwise an object
  whose \<open>message\<close> property is \<open>Some m\<close> exactly when \<open>typeof error.message === 'string'\<close>.
\<close>

record js_error =
  message :: "string option"

text \<open>
  \<open>handleGeminiError\<close> returns \<open>new Error(userMessage)\<close>; the model returns \<open>userMessage\<close>.
  The function name is only written to the log.
\<close>

definition handleGeminiError :: "js_error option \<Rightarrow> string \<Rightarrow> string" where
  "handleGeminiError error functionName =
     (case error of
        None \<Rightarrow> ''An AI feature failed. Please try again. If the problem persists, check your connection or the server logs.''
      | Some e \<Rightarrow>
          (case message e of
             None \<Rightarrow> ''An AI feature failed. Please try again. If the problem persists, check your connection or the server logs.''
           | Some m \<Rightarrow>
               (let lowerMessage = toLowerCase m in
                if str_includes lowerMessage ''api key not valid'' \<or> str_includes lowerMessage ''api_key_invalid''
                then ''AI Error: The API key configured on the server is invalid.''
                else if str_includes lowerMessage ''quota''
                then ''AI Error: API quota exceeded. Please check your billing details.''
                else if str_includes lowerMessage ''failed to call the ai service''
                then ''AI Communication Error: Could not connect to the secure AI proxy. Please check your network connection.''
                else ''AI Error: '' @ m)))"

section \<open>Attendance command resolver\<close>

text \<open>
  A roster entry, with the fields of \<open>Student\<close> the resolver reads; \<open>sid\<close> is the field \<open>id\<close>.
\<close>

record student =
  sid :: string
  firstName :: string
  lastName :: string

text \<open>
  The arguments of the tool invocation, as the provider sent them and at the types the
  source casts them to (\<open>status\<close> a string, \<open>student_names\<close> an array of strings): a field
  is \<open>None\<close> when it is absent from the object. The arguments object itself is optional
  in an invocation: \<open>args\<close> is \<open>None\<close> when \<open>call.args\<close> is \<open>undefined\<close>.
\<close>

record update_attendance_args =
  args_status :: "string option"
  student_names :: "string list option"

record function_call =
  call_name :: string
  args :: "update_attendance_args option"

record proxy_response =
  functionCalls :: "function_call list option"
  response_text :: "string option"

text \<open>The predicate handed to \<open>students.find\<close> for one lower-cased candidate name.\<close>

definition name_matches :: "string \<Rightarrow> student \<Rightarrow> bool" where
  "name_matches name s =
     (let fullName = toLowerCase (firstName s @ '' '' @ lastName s);
          lastNameFirst = toLowerCase (lastName s @ '' '' @ firstName s)
      in str_includes fullName name \<or> str_includes lastNameFirst name
         \<or> str_includes (toLowerCase (firstName s)) name
         \<or> str_includes (toLowerCase (lastName s)) name)"

text \<open>
  \<open>students.find(...)\<close> for one candidate, and the \<open>for\<close> loop over the lower-cased names,
  with the array \<open>studentIds\<close> it pushes to as the accumulator.
\<close>

definition find_student :: "student list \<Rightarrow> string \<Rightarrow> student option" where
  "find_student students name = find (name_matches name) students"

fun resolve_names :: "student list \<Rightarrow> string list \<Rightarrow> string list \<Rightarrow> string list" where
  "resolve_names students [] studentIds = studentIds"
| "resolve_names students (name # names) studentIds =
     (case find_student students name of
        None \<Rightarrow> resolve_names students names studentIds
      | Some foundStudent \<Rightarrow>
          if sid foundStudent \<notin> set studentIds
          then resolve_names students names (studentIds @ [sid foundStudent])
          else resolve_names students names studentIds)"

text \<open>The object \<open>{ status, studentIds }\<close> the resolver returns.\<close>

record attendance_update =
  status :: string
  studentIds :: "string list"

text \<open>\<open>response.functionCalls?.[0]\<close>\<close>

definition first_call :: "proxy_response \<Rightarrow> function_call option" where
  "first_call response =
     (case functionCalls response of
        None \<Rightarrow> None
      | Some [] \<Rightarrow> None
      | Some (call # _) \<Rightarrow> Some call)"

text \<open>
  \<open>processAttendanceCommand\<close> after the request has been sent. The prompt built from the
  command and the roster only goes to the provider, so the model takes what
  \<open>callApiProxy\<close> did as its input: \<open>Inl error\<close> when it threw, \<open>Inr response\<close> when it
  returned. The result is \<open>Inl msg\<close> when the function throws \<open>Error(msg)\<close>, \<open>Inr None\<close>
  when it returns \<open>null\<close>, and \<open>Inr (Some r)\<close> when it returns the object \<open>r\<close>.
  A status is falsy when it is absent or the empty string; an array is falsy only when
  it is absent. When \<open>call.args\<close> is \<open>undefined\<close>, reading \<open>args.status\<close> throws a
  \<open>TypeError\<close> inside the \<open>try\<close> block, and the \<open>catch\<close> clause throws what
  \<open>handleGeminiError\<close> makes of it; the engine words the message of that error, so the
  error object is the parameter \<open>typeError\<close>.
\<close>

definition processAttendanceCommand ::
    "js_error \<Rightarrow> student list \<Rightarrow> js_error option + proxy_response
       \<Rightarrow> string + attendance_update option" where
  "processAttendanceCommand typeError students outcome =
     (case outcome of
        Inl error \<Rightarrow> Inl (handleGeminiError error ''processAttendanceCommand'')
      | Inr response \<Rightarrow>
          (case first_call response of
             None \<Rightarrow> Inr None
           | Some call \<Rightarrow>
               (case args call of
                  None \<Rightarrow> Inl (handleGeminiError (Some typeError) ''processAttendanceCommand'')
                | Some call_args \<Rightarrow>
                    (case (args_status call_args, student_names call_args) of
                       (Some st, Some names) \<Rightarrow>
                         if st = [] then Inr None
                         else
                           (let lowerCaseNames = map toLowerCase names in
                            if ''all'' \<in> set lowerCaseNames
                            then Inr (Some \<lparr>status = st, studentIds = map sid students\<rparr>)
                            else Inr (Some \<lparr>status = st,
                                             studentIds = resolve_names students lowerCaseNames []\<rparr>))
                     | _ \<Rightarrow> Inr None))))"

section \<open>Proxy route\<close>

text \<open>
  The request carries its method and its body. The handler reads the credential from the
  environment (\<open>None\<close> when the variable is unset) and calls the provider, which is a
  parameter of the model: \<open>generateContent apiKey modelOptions\<close> is \<open>Inr response\<close> when the
  call returns and \<open>Inl error\<close> when it throws an error object. The result is the status
  code and the JSON body written to the response.
\<close>

record 'b request =
  http_method :: string
  body :: 'b

datatype 'r json_body =
  Error_json string
  | Error_details_json string "string option"
  | Response_json 'r

record 'r http_response =
  statusCode :: nat
  json :: "'r json_body"

definition handler ::
    "string option \<Rightarrow> (string \<Rightarrow> 'b \<Rightarrow> js_error + 'r) \<Rightarrow> 'b request \<Rightarrow> 'r http_response" where
  "handler API_KEY generateContent req =
     (if http_method req \<noteq> ''POST''
      then \<lparr>statusCode = 405, json = Error_json ''Method not allowed''\<rparr>
      else
        (case (case API_KEY of
                 None \<Rightarrow> Inl \<lparr>message = Some ''API_KEY is not set in environment variables.''\<rparr>
               | Some apiKey \<Rightarrow>
                   if apiKey = []
                   then Inl \<lparr>message = Some ''API_KEY is not set in environment variables.''\<rparr>
                   else generateContent apiKey (body req)) of
           Inr response \<Rightarrow> \<lparr>statusCode = 200, json = Response_json response\<rparr>
         | Inl error \<Rightarrow>
             \<lparr>statusCode = 500,
              json = Error_details_json ''An error occurred while communicating with the AI service.''
                       (message error)\<rparr>))"

section \<open>Vocabulary of the specification\<close>

text \<open>
  The notions the specification uses, written as it words them: a candidate is a
  substring of a text when the text is some prefix, then the candidate, then some suffix.
\<close>

definition is_substring_of :: "string \<Rightarrow> string \<Rightarrow> bool" where
  "is_substring_of cand txt = (\<exists>pre post. txt = pre @ cand @ post)"

definition candidate_matches_entry :: "string \<Rightarrow> student \<Rightarrow> bool" where
  "candidate_matches_entry cand s =
     (is_substring_of cand (toLowerCase (firstName s @ '' '' @ lastName s))
      \<or> is_substring_of cand (toLowerCase (lastName s @ '' '' @ firstName s))
      \<or> is_substring_of cand (toLowerCase (firstName s))
      \<or> is_substring_of cand (toLowerCase (lastName s)))"

text \<open>
  The entry a candidate selects: the first one, in roster order, that it matches.
\<close>

definition first_entry_matching :: "student list \<Rightarrow> string \<Rightarrow> student \<Rightarrow> bool" where
  "first_entry_matching students cand s =
     (\<exists>i<length students. students ! i = s \<and> candidate_matches_entry cand s
        \<and> (\<forall>j<i. \<not> candidate_matches_entry cand (students ! j)))"

text \<open>
  A message contains a keyword in any case when one of its substrings equals the keyword
  up to letter case.
\<close>

definition contains_in_any_case :: "string \<Rightarrow> string \<Rightarrow> bool" where
  "contains_in_any_case msg keyword =
     (\<exists>w. is_substring_of w msg \<and> toLowerCase w = toLowerCase keyword)"

text \<open>The eight ways of writing the sentinel \<open>ALL\<close>.\<close>

definition is_ALL_in_any_casing :: "string \<Rightarrow> bool" where
  "is_ALL_in_any_casing n =
     (case n of
        [a, l, l'] \<Rightarrow>
          (a = CHR ''A'' \<or> a = CHR ''a'') \<and> (l = CHR ''L'' \<or> l = CHR ''l'')
          \<and> (l' = CHR ''L'' \<or> l' = CHR ''l'')
      | _ \<Rightarrow> False)"

text \<open>A list with every repetition of an earlier element removed.\<close>

definition first_occurrences :: "'a list \<Rightarrow> 'a list" where
  "first_occurrences xs = rev (remdups (rev xs))"

text \<open>
  The roster of the specification's end-to-end scenarios, a provider response that
  carries exactly one \<open>update_attendance\<close> invocation with its arguments, and a \<open>TypeError\<close>
  as an engine words it.
\<close>

definition scenario_roster :: "student list" where
  "scenario_roster =
     [\<lparr>sid = ''s1'', firstName = ''Juan'', lastName = ''Dela Cruz''\<rparr>,
      \<lparr>sid = ''s2'', firstName = ''Maria'', lastName = ''Santos''\<rparr>,
      \<lparr>sid = ''s3'', firstName = ''Ana'', lastName = ''Gomez''\<rparr>]"

definition tool_invocation :: "string option \<Rightarrow> string list option \<Rightarrow> proxy_response" where
  "tool_invocation st names =
     \<lparr>functionCalls = Some [\<lparr>call_name = ''update_attendance'',
                               args = Some \<lparr>args_status = st, student_names = names\<rparr>\<rparr>],
      response_text = None\<rparr>"

definition sample_type_error :: js_error where
  "sample_type_error = \<lparr>message = Some ''args is undefined''\<rparr>"

section \<open>Auxiliary facts\<close>

lemmas lower_eval = toLowerCase_def toLowerCaseChar_def char_of_def bit_Suc_0_iff

lemma str_includes_iff: "str_includes hay needle \<longleftrightarrow> is_substring_of needle hay"
  unfolding is_substring_of_def sublist_def [symmetric]
  by (induction hay) (auto simp: sublist_Cons_right)

lemma name_matches_iff: "name_matches name s \<longleftrightarrow> candidate_matches_entry name s"
  by (simp add: name_matches_def candidate_matches_entry_def str_includes_iff)

lemma str_includes_empty: "str_includes hay []"
  by (cases hay) simp_all

lemma name_matches_empty: "name_matches [] s"
  by (simp add: name_matches_def str_includes_empty)

lemma find_student_mem: "find_student students name = Some s \<Longrightarrow> s \<in> set students"
  by (auto simp: find_student_def find_Some_iff)

lemma remdups_drop_later: "x \<in> set bs \<Longrightarrow> remdups (as @ x # bs) = remdups (as @ bs)"
  by (induction as) auto

lemma first_occurrences_seen:
  "x \<in> set xs \<Longrightarrow> first_occurrences (xs @ x # ys) = first_occurrences (xs @ ys)"
  by (simp add: first_occurrences_def remdups_drop_later)

lemma first_occurrences_distinct: "distinct xs \<Longrightarrow> first_occurrences xs = xs"
  by (simp add: first_occurrences_def distinct_remdups_id)

lemma set_first_occurrences: "set (first_occurrences xs) = set xs"
  by (simp add: first_occurrences_def)

lemma distinct_first_occurrences: "distinct (first_occurrences xs)"
  by (simp add: first_occurrences_def)

lemma resolve_names_closed_form:
  "distinct acc \<Longrightarrow>
   resolve_names students names acc =
     first_occurrences (acc @ map sid (List.map_filter (find_student students) names))"
proof (induction names arbitrary: acc)
  case Nil
  then show ?case by (simp add: first_occurrences_distinct)
next
  case (Cons n names)
  show ?case
  proof (cases "find_student students n")
    case None
    with Cons show ?thesis by simp
  next
    case (Some s)
    show ?thesis
    proof (cases "sid s \<in> set acc")
      case True
      with Some Cons show ?thesis
        by (simp add: first_occurrences_seen)
    next
      case False
      with Cons.prems have "distinct (acc @ [sid s])" by simp
      from Cons.IH [OF this] Some False show ?thesis
        by simp
    qed
  qed
qed

lemma set_map_filter: "set (List.map_filter f xs) = {y. \<exists>x\<in>set xs. f x = Some y}"
  by (induction xs) (auto split: option.splits)

lemma resolve_names_distinct: "distinct (resolve_names students names [])"
  by (simp add: resolve_names_closed_form distinct_first_occurrences)

lemma set_resolve_names:
  "set (resolve_names students names []) =
     {sid s | s. \<exists>n\<in>set names. find_student students n = Some s}"
  by (auto simp: resolve_names_closed_form set_first_occurrences set_map_filter)


lemma toLowerCaseChar_a: "toLowerCaseChar c = CHR ''a'' \<longleftrightarrow> c = CHR ''a'' \<or> c = CHR ''A''"
  by (cases c) (auto simp add: toLowerCaseChar_def Let_def char_of_def bit_Suc_0_iff)

lemma toLowerCaseChar_l: "toLowerCaseChar c = CHR ''l'' \<longleftrightarrow> c = CHR ''l'' \<or> c = CHR ''L''"
  by (cases c) (auto simp add: toLowerCaseChar_def Let_def char_of_def bit_Suc_0_iff)

lemma toLowerCase_all_iff: "toLowerCase n = ''all'' \<longleftrightarrow> is_ALL_in_any_casing n"
proof -
  have "toLowerCase n = ''all'' \<longleftrightarrow>
          (\<exists>a l l'. n = [a, l, l'] \<and> toLowerCaseChar a = CHR ''a''
             \<and> toLowerCaseChar l = CHR ''l'' \<and> toLowerCaseChar l' = CHR ''l'')"
    by (auto simp: toLowerCase_def)
  also have "\<dots> \<longleftrightarrow> is_ALL_in_any_casing n"
    unfolding is_ALL_in_any_casing_def toLowerCaseChar_a toLowerCaseChar_l
    by (auto split: list.splits)
  finally show ?thesis .
qed

lemma first_call_tool_invocation:
  "first_call (tool_invocation st names) =
     Some \<lparr>call_name = ''update_attendance'',
            args = Some \<lparr>args_status = st, student_names = names\<rparr>\<rparr>"
  by (simp add: first_call_def tool_invocation_def)

lemma tool_call_args: "args \<lparr>call_name = c, args = Some x\<rparr> = Some x"
  by simp

lemma processAttendanceCommand_valid:
  assumes "first_call response = Some call" and "args call = Some a"
    and "args_status a = Some st" and "st \<noteq> []"
    and "student_names a = Some names"
  shows "processAttendanceCommand typeError students (Inr response) =
           Inr (Some \<lparr>status = st,
                      studentIds = (if ''all'' \<in> set (map toLowerCase names) then map sid students
                                    else resolve_names students (map toLowerCase names) [])\<rparr>)"
  using assms by (simp add: processAttendanceCommand_def)

lemma all_in_lowered_iff:
  "''all'' \<in> set (map toLowerCase names) \<longleftrightarrow> (\<exists>n\<in>set names. is_ALL_in_any_casing n)"
proof -
  have "''all'' \<in> set (map toLowerCase names) \<longleftrightarrow> (\<exists>n\<in>set names. toLowerCase n = ''all'')"
    by (simp add: image_iff eq_commute)
  then show ?thesis by (simp add: toLowerCase_all_iff)
qed

lemma find_student_Some_iff:
  "find_student students name = Some s \<longleftrightarrow>
     (\<exists>i<length students. students ! i = s \<and> candidate_matches_entry name s
        \<and> (\<forall>j<i. \<not> candidate_matches_entry name (students ! j)))"
  unfolding find_student_def find_Some_iff name_matches_iff by blast

lemma find_student_None_iff:
  "find_student students name = None \<longleftrightarrow>
     (\<forall>s\<in>set students. \<not> candidate_matches_entry name s)"
  unfolding find_student_def find_None_iff name_matches_iff by blast

lemma find_student_first_entry:
  "find_student students name = Some s \<longleftrightarrow> first_entry_matching students name s"
  by (simp add: find_student_Some_iff first_entry_matching_def)

lemma find_student_matched_iff:
  "find_student students name \<noteq> None \<longleftrightarrow> (\<exists>s\<in>set students. candidate_matches_entry name s)"
  by (simp add: find_student_None_iff)

lemma resolve_names_skip_unmatched:
  "resolve_names students (filter (\<lambda>c. find_student students c \<noteq> None) cands) acc =
     resolve_names students cands acc"
  by (induction cands arbitrary: acc) (auto split: option.splits)

lemma set_resolve_names_roster: "set (resolve_names students cands []) \<subseteq> sid ` set students"
  by (auto simp: set_resolve_names dest: find_student_mem)

lemma process_all_path:
  assumes "first_call response = Some call" and "args call = Some a"
    and "args_status a = Some st" and "st \<noteq> []"
    and "student_names a = Some names"
    and "\<exists>n\<in>set names. is_ALL_in_any_casing n"
  shows "processAttendanceCommand typeError students (Inr response) =
           Inr (Some \<lparr>status = st, studentIds = map sid students\<rparr>)"
  using assms(6) processAttendanceCommand_valid [OF assms(1-5), of typeError students]
  by (simp only: all_in_lowered_iff if_True)

lemma process_names_path:
  assumes "first_call response = Some call" and "args call = Some a"
    and "args_status a = Some st" and "st \<noteq> []"
    and "student_names a = Some names"
    and "\<not> (\<exists>n\<in>set names. is_ALL_in_any_casing n)"
  shows "processAttendanceCommand typeError students (Inr response) =
           Inr (Some \<lparr>status = st,
                      studentIds = resolve_names students (map toLowerCase names) []\<rparr>)"
  using assms(6) processAttendanceCommand_valid [OF assms(1-5), of typeError students]
  by (simp only: all_in_lowered_iff if_False)

lemma toLowerCase_Nil: "toLowerCase [] = []"
  by (simp add: toLowerCase_def)

lemma find_student_empty_candidate: "find_student (s0 # rest) [] = Some s0"
  by (simp add: find_student_def name_matches_empty)

lemma includes_lowered_iff:
  "str_includes (toLowerCase m) (toLowerCase keyword) \<longleftrightarrow> contains_in_any_case m keyword"
proof
  assume "str_includes (toLowerCase m) (toLowerCase keyword)"
  then obtain pre post where "map toLowerCaseChar m = pre @ map toLowerCaseChar keyword @ post"
    by (auto simp: str_includes_iff is_substring_of_def toLowerCase_def)
  then have "\<exists>m1 m2. m = m1 @ m2 \<and> pre = map toLowerCaseChar m1
               \<and> map toLowerCaseChar keyword @ post = map toLowerCaseChar m2"
    by (simp only: map_eq_append_conv)
  then obtain m1 m2 where m: "m = m1 @ m2"
    and "map toLowerCaseChar keyword @ post = map toLowerCaseChar m2"
    by blast
  then have "\<exists>w m3. m2 = w @ m3 \<and> map toLowerCaseChar keyword = map toLowerCaseChar w
               \<and> post = map toLowerCaseChar m3"
    by (simp only: append_eq_map_conv)
  then obtain w m3 where "m2 = w @ m3" and "map toLowerCaseChar w = map toLowerCaseChar keyword"
    by auto
  with m have "is_substring_of w m \<and> toLowerCase w = toLowerCase keyword"
    by (auto simp: is_substring_of_def toLowerCase_def)
  then show "contains_in_any_case m keyword"
    unfolding contains_in_any_case_def by blast
next
  assume "contains_in_any_case m keyword"
  then obtain w pre post where "m = pre @ w @ post" and "toLowerCase w = toLowerCase keyword"
    by (auto simp: contains_in_any_case_def is_substring_of_def)
  then have "toLowerCase m = toLowerCase pre @ toLowerCase keyword @ toLowerCase post"
    by (simp add: toLowerCase_def)
  then show "str_includes (toLowerCase m) (toLowerCase keyword)"
    unfolding str_includes_iff is_substring_of_def by blast
qed

lemma includes_keyword_iff:
  "str_includes (toLowerCase m) ''api key not valid'' \<longleftrightarrow> contains_in_any_case m ''api key not valid''"
  "str_includes (toLowerCase m) ''api_key_invalid'' \<longleftrightarrow> contains_in_any_case m ''API_KEY_INVALID''"
  "str_includes (toLowerCase m) ''quota'' \<longleftrightarrow> contains_in_any_case m ''quota''"
  "str_includes (toLowerCase m) ''failed to call the ai service'' \<longleftrightarrow>
     contains_in_any_case m ''failed to call the ai service''"
proof -
  have "toLowerCase ''api key not valid'' = ''api key not valid''"
    and "toLowerCase ''API_KEY_INVALID'' = ''api_key_invalid''"
    and "toLowerCase ''quota'' = ''quota''"
    and "toLowerCase ''failed to call the ai service'' = ''failed to call the ai service''"
    by (simp_all add: lower_eval)
  then show
    "str_includes (toLowerCase m) ''api key not valid'' \<longleftrightarrow> contains_in_any_case m ''api key not valid''"
    "str_includes (toLowerCase m) ''api_key_invalid'' \<longleftrightarrow> contains_in_any_case m ''API_KEY_INVALID''"
    "str_includes (toLowerCase m) ''quota'' \<longleftrightarrow> contains_in_any_case m ''quota''"
    "str_includes (toLowerCase m) ''failed to call the ai service'' \<longleftrightarrow>
       contains_in_any_case m ''failed to call the ai service''"
    by (metis includes_lowered_iff)+
qed

section \<open>The sentinel \<open>ALL\<close>\<close>

text \<open>
  Claim C1. Whenever the tool invocation passes the argument check and one of its
  \<open>student_names\<close> is \<open>ALL\<close> in any letter-casing, the resolver returns the given status
  together with the identifiers of the roster entries, one per entry and in roster
  order, whatever other names the list holds.
\<close>

theorem all_sentinel_selects_whole_roster:
  assumes "first_call response = Some call" and "args call = Some a"
    and "args_status a = Some st" and "st \<noteq> []"
    and "student_names a = Some names"
    and "\<exists>n\<in>set names. is_ALL_in_any_casing n"
  shows "processAttendanceCommand typeError students (Inr response) =
           Inr (Some \<lparr>status = st, studentIds = map sid students\<rparr>)"
proof -
  from assms(6) obtain n where "n \<in> set names" and "toLowerCase n = ''all''"
    by (auto simp: toLowerCase_all_iff)
  then have "''all'' \<in> set (map toLowerCase names)"
    by (metis image_eqI set_map)
  with processAttendanceCommand_valid [OF assms(1-5)] show ?thesis by simp
qed

theorem all_sentinel_selects_whole_roster_witness:
  "first_call (tool_invocation (Some ''present'') (Some [''Carlos Reyes'', ''aLl'', ''Ana'']))
     = Some \<lparr>call_name = ''update_attendance'',
             args = Some \<lparr>args_status = Some ''present'',
                          student_names = Some [''Carlos Reyes'', ''aLl'', ''Ana'']\<rparr>\<rparr>
   \<and> ''present'' \<noteq> []
   \<and> (\<exists>n\<in>set [''Carlos Reyes'', ''aLl'', ''Ana'']. is_ALL_in_any_casing n)
   \<and> processAttendanceCommand sample_type_error scenario_roster
        (Inr (tool_invocation (Some ''present'') (Some [''Carlos Reyes'', ''aLl'', ''Ana''])))
       = Inr (Some \<lparr>status = ''present'', studentIds = [''s1'', ''s2'', ''s3'']\<rparr>)"
proof -
  have h: "\<exists>n\<in>set [''Carlos Reyes'', ''aLl'', ''Ana'']. is_ALL_in_any_casing n"
    by (simp add: is_ALL_in_any_casing_def)
  have "processAttendanceCommand sample_type_error scenario_roster
        (Inr (tool_invocation (Some ''present'') (Some [''Carlos Reyes'', ''aLl'', ''Ana''])))
       = Inr (Some \<lparr>status = ''present'', studentIds = map sid scenario_roster\<rparr>)"
    by (rule all_sentinel_selects_whole_roster
              [OF first_call_tool_invocation tool_call_args _ _ _ h]) simp_all
  with h show ?thesis
    by (simp add: first_call_tool_invocation scenario_roster_def)
qed

section \<open>No identifier is returned twice\<close>

text \<open>
  Claim C2. The identifiers of a roster are the keys of its students, so they are
  pairwise distinct. For such a roster and an invocation that passes the argument
  check, the returned list never holds an identifier twice, on either path: the \<open>ALL\<close>
  path returns the identifiers of the roster as they are, and the loop over the
  candidates pushes an identifier only when \<open>studentIds\<close> does not hold it yet, however
  many candidates select the same entry. Only the \<open>ALL\<close> path uses that the roster's
  identifiers are distinct.
\<close>

theorem resolved_identifiers_distinct:
  assumes "first_call response = Some call" and "args call = Some a"
    and "args_status a = Some st" and "st \<noteq> []"
    and "student_names a = Some names"
    and "(\<exists>n\<in>set names. is_ALL_in_any_casing n) \<longrightarrow> distinct (map sid students)"
  shows "\<exists>ids. processAttendanceCommand typeError students (Inr response) =
                 Inr (Some \<lparr>status = st, studentIds = ids\<rparr>) \<and> distinct ids"
proof -
  from all_in_lowered_iff [of names] assms(6)
    processAttendanceCommand_valid [OF assms(1-5), of typeError students]
  show ?thesis
    by (auto simp: resolve_names_distinct)
qed

text \<open>
  On the \<open>ALL\<close> path, with another name beside the sentinel, every identifier of the
  scenario roster is returned once. On the other path three candidates select Ana Gomez
  and one selects Maria Santos, and each identifier is returned once.
\<close>

theorem resolved_identifiers_distinct_witness:
  "first_call (tool_invocation (Some ''present'') (Some [''ALL'', ''Ana'']))
     = Some \<lparr>call_name = ''update_attendance'',
             args = Some \<lparr>args_status = Some ''present'',
                          student_names = Some [''ALL'', ''Ana'']\<rparr>\<rparr>
   \<and> ''present'' \<noteq> []
   \<and> (\<exists>n\<in>set [''ALL'', ''Ana'']. is_ALL_in_any_casing n)
   \<and> distinct (map sid scenario_roster)
   \<and> (\<exists>ids. processAttendanceCommand sample_type_error scenario_roster
          (Inr (tool_invocation (Some ''present'') (Some [''ALL'', ''Ana''])))
         = Inr (Some \<lparr>status = ''present'', studentIds = ids\<rparr>) \<and> distinct ids)
   \<and> processAttendanceCommand sample_type_error scenario_roster
        (Inr (tool_invocation (Some ''present'') (Some [''ALL'', ''Ana''])))
       = Inr (Some \<lparr>status = ''present'', studentIds = [''s1'', ''s2'', ''s3'']\<rparr>)
   \<and> first_call (tool_invocation (Some ''late'') (Some [''Ana'', ''Gomez'', ''GOMEZ ANA'', ''Maria'']))
     = Some \<lparr>call_name = ''update_attendance'',
             args = Some \<lparr>args_status = Some ''late'',
                          student_names = Some [''Ana'', ''Gomez'', ''GOMEZ ANA'', ''Maria'']\<rparr>\<rparr>
   \<and> ''late'' \<noteq> []
   \<and> \<not> (\<exists>n\<in>set [''Ana'', ''Gomez'', ''GOMEZ ANA'', ''Maria'']. is_ALL_in_any_casing n)
   \<and> (\<exists>ids. processAttendanceCommand sample_type_error scenario_roster
          (Inr (tool_invocation (Some ''late'') (Some [''Ana'', ''Gomez'', ''GOMEZ ANA'', ''Maria''])))
         = Inr (Some \<lparr>status = ''late'', studentIds = ids\<rparr>) \<and> distinct ids)
   \<and> processAttendanceCommand sample_type_error scenario_roster
        (Inr (tool_invocation (Some ''late'') (Some [''Ana'', ''Gomez'', ''GOMEZ ANA'', ''Maria''])))
       = Inr (Some \<lparr>status = ''late'', studentIds = [''s3'', ''s2'']\<rparr>)"
proof -
  have a1: "\<exists>n\<in>set [''ALL'', ''Ana'']. is_ALL_in_any_casing n"
    by (simp add: is_ALL_in_any_casing_def)
  have a2: "\<not> (\<exists>n\<in>set [''Ana'', ''Gomez'', ''GOMEZ ANA'', ''Maria'']. is_ALL_in_any_casing n)"
    by (simp add: is_ALL_in_any_casing_def)
  have d: "distinct (map sid scenario_roster)"
    by (simp add: scenario_roster_def)
  from d have h1: "(\<exists>n\<in>set [''ALL'', ''Ana'']. is_ALL_in_any_casing n)
        \<longrightarrow> distinct (map sid scenario_roster)"
    by (rule impI)
  from d have h2: "(\<exists>n\<in>set [''Ana'', ''Gomez'', ''GOMEZ ANA'', ''Maria'']. is_ALL_in_any_casing n)
        \<longrightarrow> distinct (map sid scenario_roster)"
    by (rule impI)
  have e1: "processAttendanceCommand sample_type_error scenario_roster
        (Inr (tool_invocation (Some ''present'') (Some [''ALL'', ''Ana''])))
       = Inr (Some \<lparr>status = ''present'', studentIds = [''s1'', ''s2'', ''s3'']\<rparr>)"
    by (simp add: processAttendanceCommand_def first_call_tool_invocation scenario_roster_def
        lower_eval)
  have e2: "processAttendanceCommand sample_type_error scenario_roster
        (Inr (tool_invocation (Some ''late'') (Some [''Ana'', ''Gomez'', ''GOMEZ ANA'', ''Maria''])))
       = Inr (Some \<lparr>status = ''late'', studentIds = [''s3'', ''s2'']\<rparr>)"
    by (simp add: processAttendanceCommand_def first_call_tool_invocation scenario_roster_def
        find_student_def name_matches_def lower_eval)
  have t1: "\<exists>ids. processAttendanceCommand sample_type_error scenario_roster
          (Inr (tool_invocation (Some ''present'') (Some [''ALL'', ''Ana''])))
         = Inr (Some \<lparr>status = ''present'', studentIds = ids\<rparr>) \<and> distinct ids"
    by (rule resolved_identifiers_distinct
              [OF first_call_tool_invocation tool_call_args _ _ _ h1]) simp_all
  have t2: "\<exists>ids. processAttendanceCommand sample_type_error scenario_roster
        (Inr (tool_invocation (Some ''late'') (Some [''Ana'', ''Gomez'', ''GOMEZ ANA'', ''Maria''])))
       = Inr (Some \<lparr>status = ''late'', studentIds = ids\<rparr>) \<and> distinct ids"
    by (rule resolved_identifiers_distinct
              [OF first_call_tool_invocation tool_call_args _ _ _ h2]) simp_all
  from a1 a2 d t1 t2 show ?thesis
    unfolding e1 e2 by (simp add: first_call_tool_invocation)
qed

section \<open>Which roster entry a candidate selects\<close>



section \<open>Candidates that match nobody\<close>

text \<open>
  Claim C4. When the invocation passes the argument check, the resolver throws nothing
  and returns an object with the given status whose identifiers all belong to the
  roster. Unless the list holds the sentinel \<open>ALL\<close>, the identifiers returned are exactly
  those of the entries the candidates select, each candidate selecting the first entry
  it matches; a candidate that matches no entry is dropped silently, the result being
  the one for the list without such candidates; and when no candidate matches an entry
  the identifier list is empty.
\<close>

theorem unmatched_candidates_dropped:
  assumes "first_call response = Some call" and "args call = Some a"
    and "args_status a = Some st" and "st \<noteq> []"
    and "student_names a = Some names"
  shows "\<exists>ids. processAttendanceCommand typeError students (Inr response) =
                 Inr (Some \<lparr>status = st, studentIds = ids\<rparr>)
           \<and> set ids \<subseteq> sid ` set students
           \<and> (\<not> (\<exists>n\<in>set names. is_ALL_in_any_casing n) \<longrightarrow>
                set ids =
                  {sid s | s. \<exists>n\<in>set names. first_entry_matching students (toLowerCase n) s}
                \<and> processAttendanceCommand typeError students
                    (Inr (tool_invocation (Some st)
                       (Some (filter (\<lambda>n. \<exists>s\<in>set students.
                                 candidate_matches_entry (toLowerCase n) s) names))))
                  = Inr (Some \<lparr>status = st, studentIds = ids\<rparr>)
                \<and> ((\<forall>n\<in>set names. \<forall>s\<in>set students.
                       \<not> candidate_matches_entry (toLowerCase n) s) \<longrightarrow> ids = []))"
proof (cases "\<exists>n\<in>set names. is_ALL_in_any_casing n")
  case True
  with process_all_path [OF assms, of typeError students] show ?thesis
    by auto
next
  case False
  let ?ids = "resolve_names students (map toLowerCase names) []"
  let ?kept = "filter (\<lambda>n. \<exists>s\<in>set students. candidate_matches_entry (toLowerCase n) s) names"
  from False have "processAttendanceCommand typeError students (Inr response) =
          Inr (Some \<lparr>status = st, studentIds = ?ids\<rparr>)"
    by (rule process_names_path [OF assms])
  moreover have "set ?ids \<subseteq> sid ` set students"
    by (rule set_resolve_names_roster)
  moreover have s: "set ?ids =
      {sid s | s. \<exists>n\<in>set names. first_entry_matching students (toLowerCase n) s}"
    by (simp add: set_resolve_names find_student_first_entry)
  moreover have "processAttendanceCommand typeError students
                   (Inr (tool_invocation (Some st) (Some ?kept)))
                 = Inr (Some \<lparr>status = st, studentIds = ?ids\<rparr>)"
  proof -
    from False have "\<not> (\<exists>n\<in>set ?kept. is_ALL_in_any_casing n)" by auto
    with assms(4) have "processAttendanceCommand typeError students
                   (Inr (tool_invocation (Some st) (Some ?kept)))
                 = Inr (Some \<lparr>status = st,
                              studentIds = resolve_names students (map toLowerCase ?kept) []\<rparr>)"
      by (intro process_names_path [OF first_call_tool_invocation tool_call_args]) simp_all
    moreover have "map toLowerCase ?kept =
        filter (\<lambda>c. find_student students c \<noteq> None) (map toLowerCase names)"
      by (simp only: filter_map o_def find_student_matched_iff)
    ultimately show ?thesis
      by (simp only: resolve_names_skip_unmatched)
  qed
  moreover have "(\<forall>n\<in>set names. \<forall>s\<in>set students.
                    \<not> candidate_matches_entry (toLowerCase n) s) \<longrightarrow> ?ids = []"
  proof
    assume "\<forall>n\<in>set names. \<forall>s\<in>set students. \<not> candidate_matches_entry (toLowerCase n) s"
    then have "\<forall>n\<in>set names. find_student students (toLowerCase n) = None"
      by (simp add: find_student_None_iff)
    then have "set ?ids = {}"
      by (auto simp: set_resolve_names)
    then show "?ids = []" by simp
  qed
  ultimately show ?thesis by blast
qed

text \<open>
  On the scenario roster \<open>Carlos Reyes\<close> matches nobody and \<open>Ana\<close> selects Ana Gomez: the
  two names together give the identifier of Ana Gomez alone, and \<open>Carlos Reyes\<close> alone
  gives the empty list, as in the scenario of the specification.
\<close>

theorem unmatched_candidates_dropped_witness:
  "first_call (tool_invocation (Some ''absent'') (Some [''Carlos Reyes'', ''Ana'']))
     = Some \<lparr>call_name = ''update_attendance'',
             args = Some \<lparr>args_status = Some ''absent'',
                          student_names = Some [''Carlos Reyes'', ''Ana'']\<rparr>\<rparr>
   \<and> ''absent'' \<noteq> []
   \<and> \<not> (\<exists>n\<in>set [''Carlos Reyes'', ''Ana'']. is_ALL_in_any_casing n)
   \<and> \<not> (\<exists>s\<in>set scenario_roster. candidate_matches_entry (toLowerCase ''Carlos Reyes'') s)
   \<and> first_entry_matching scenario_roster (toLowerCase ''Ana'')
        \<lparr>sid = ''s3'', firstName = ''Ana'', lastName = ''Gomez''\<rparr>
   \<and> processAttendanceCommand sample_type_error scenario_roster
        (Inr (tool_invocation (Some ''absent'') (Some [''Carlos Reyes'', ''Ana''])))
       = Inr (Some \<lparr>status = ''absent'', studentIds = [''s3'']\<rparr>)
   \<and> processAttendanceCommand sample_type_error scenario_roster
        (Inr (tool_invocation (Some ''absent'') (Some [''Carlos Reyes''])))
       = Inr (Some \<lparr>status = ''absent'', studentIds = []\<rparr>)"
proof -
  let ?matched = "\<lambda>n. \<exists>s\<in>set scenario_roster. candidate_matches_entry (toLowerCase n) s"
  have a2: "\<not> (\<exists>n\<in>set [''Carlos Reyes'', ''Ana'']. is_ALL_in_any_casing n)"
    and a1: "\<not> (\<exists>n\<in>set [''Carlos Reyes'']. is_ALL_in_any_casing n)"
    by (simp_all add: is_ALL_in_any_casing_def)
  have "find_student scenario_roster (toLowerCase ''Carlos Reyes'') = None"
    by (simp add: find_student_def scenario_roster_def name_matches_def lower_eval)
  then have u: "\<not> ?matched ''Carlos Reyes''"
    by (simp add: find_student_None_iff)
  have f: "find_student scenario_roster (toLowerCase ''Ana'')
          = Some \<lparr>sid = ''s3'', firstName = ''Ana'', lastName = ''Gomez''\<rparr>"
    by (simp add: find_student_def scenario_roster_def name_matches_def lower_eval)
  then have w: "first_entry_matching scenario_roster (toLowerCase ''Ana'')
                  \<lparr>sid = ''s3'', firstName = ''Ana'', lastName = ''Gomez''\<rparr>"
    by (simp add: find_student_first_entry)
  from f have m: "?matched ''Ana''"
    by (simp add: find_student_matched_iff [symmetric])
  have v: "''absent'' \<noteq> []" by simp
  have one: "processAttendanceCommand sample_type_error scenario_roster
        (Inr (tool_invocation (Some ''absent'') (Some [''Ana''])))
       = Inr (Some \<lparr>status = ''absent'', studentIds = [''s3'']\<rparr>)"
    by (simp add: processAttendanceCommand_def first_call_tool_invocation scenario_roster_def
        find_student_def name_matches_def lower_eval)
  from u m have k: "filter ?matched [''Carlos Reyes'', ''Ana''] = [''Ana'']"
    by simp
  note two = unmatched_candidates_dropped
         [OF first_call_tool_invocation tool_call_args
             update_attendance_args.select_convs(1) v update_attendance_args.select_convs(2),
          where names = "[''Carlos Reyes'', ''Ana'']" and students = scenario_roster
            and typeError = sample_type_error, unfolded k]
  from two a2
  obtain ids where "processAttendanceCommand sample_type_error scenario_roster
        (Inr (tool_invocation (Some ''absent'') (Some [''Carlos Reyes'', ''Ana''])))
       = Inr (Some \<lparr>status = ''absent'', studentIds = ids\<rparr>)"
    and "processAttendanceCommand sample_type_error scenario_roster
        (Inr (tool_invocation (Some ''absent'') (Some [''Ana''])))
       = Inr (Some \<lparr>status = ''absent'', studentIds = ids\<rparr>)"
    by blast
  with one have both: "processAttendanceCommand sample_type_error scenario_roster
        (Inr (tool_invocation (Some ''absent'') (Some [''Carlos Reyes'', ''Ana''])))
       = Inr (Some \<lparr>status = ''absent'', studentIds = [''s3'']\<rparr>)"
    by simp
  from unmatched_candidates_dropped
         [OF first_call_tool_invocation tool_call_args _ v,
          where names = "[''Carlos Reyes'']" and students = scenario_roster
            and typeError = sample_type_error] a1 u
  have none: "processAttendanceCommand sample_type_error scenario_roster
        (Inr (tool_invocation (Some ''absent'') (Some [''Carlos Reyes''])))
       = Inr (Some \<lparr>status = ''absent'', studentIds = []\<rparr>)"
    by auto
  from a2 u w both none show ?thesis
    by (simp add: first_call_tool_invocation)
qed

section \<open>Responses without a usable invocation\<close>

text \<open>
  When the provider's response has no tool invocation (\<open>functionCalls\<close> absent or empty),
  or the arguments object of its first invocation lacks \<open>status\<close> or lacks
  \<open>student_names\<close>, the resolver returns \<open>null\<close> and throws nothing, whatever the roster.
\<close>

lemma missing_invocation_or_field_gives_null:
  assumes "functionCalls response = None \<or> functionCalls response = Some []
           \<or> (\<exists>call rest a. functionCalls response = Some (call # rest) \<and> args call = Some a
                \<and> (args_status a = None \<or> student_names a = None))"
  shows "processAttendanceCommand typeError students (Inr response) = Inr None"
  using assms
  by (auto simp: processAttendanceCommand_def first_call_def split: option.splits)

text \<open>
  Claim C5 has the resolver return \<open>null\<close> whenever the arguments of the invocation are
  missing \<open>status\<close> or \<open>student_names\<close>. The code does not when they are missing because
  the invocation carries no arguments object at all: the argument check reads
  \<open>args.status\<close> of \<open>undefined\<close>, and the resolver throws the classified error instead of
  returning \<open>null\<close>.
\<close>

theorem invocation_without_arguments_throws:
  assumes "first_call response = Some call" and "args call = None"
  shows "processAttendanceCommand typeError students (Inr response) =
           Inl (handleGeminiError (Some typeError) ''processAttendanceCommand'')"
  using assms by (simp add: processAttendanceCommand_def)

text \<open>An invocation of \<open>update_attendance\<close> that carries no arguments.\<close>

theorem invocation_without_arguments_throws_witness:
  "first_call \<lparr>functionCalls = Some [\<lparr>call_name = ''update_attendance'', args = None\<rparr>],
               response_text = None\<rparr>
     = Some \<lparr>call_name = ''update_attendance'', args = None\<rparr>
   \<and> args \<lparr>call_name = ''update_attendance'', args = None\<rparr> = None
   \<and> processAttendanceCommand sample_type_error scenario_roster
        (Inr \<lparr>functionCalls = Some [\<lparr>call_name = ''update_attendance'', args = None\<rparr>],
              response_text = None\<rparr>)
       = Inl ''AI Error: args is undefined''
   \<and> processAttendanceCommand sample_type_error scenario_roster
        (Inr \<lparr>functionCalls = Some [\<lparr>call_name = ''update_attendance'', args = None\<rparr>],
              response_text = None\<rparr>)
       \<noteq> Inr None"
proof -
  have c: "first_call \<lparr>functionCalls = Some [\<lparr>call_name = ''update_attendance'', args = None\<rparr>],
               response_text = None\<rparr>
     = Some \<lparr>call_name = ''update_attendance'', args = None\<rparr>"
    by (simp add: first_call_def)
  have n: "args \<lparr>call_name = ''update_attendance'', args = None\<rparr> = None"
    by simp
  have "handleGeminiError (Some sample_type_error) ''processAttendanceCommand''
          = ''AI Error: args is undefined''"
    by (simp add: handleGeminiError_def sample_type_error_def lower_eval)
  with invocation_without_arguments_throws
         [OF c n, where typeError = sample_type_error and students = scenario_roster]
  have "processAttendanceCommand sample_type_error scenario_roster
        (Inr \<lparr>functionCalls = Some [\<lparr>call_name = ''update_attendance'', args = None\<rparr>],
              response_text = None\<rparr>)
       = Inl ''AI Error: args is undefined''"
    by simp
  with c show ?thesis by simp
qed

section \<open>The status is not validated\<close>

text \<open>
  Claim C8. When the invocation passes the argument check, the status of the returned
  object is the provider's \<open>status\<close> string, unchanged, whatever that string is: it is
  never compared with \<open>present\<close>, \<open>absent\<close> and \<open>late\<close>.
\<close>

theorem status_passed_through_verbatim:
  assumes "first_call response = Some call" and "args call = Some a"
    and "args_status a = Some st" and "st \<noteq> []"
    and "student_names a = Some names"
  shows "\<exists>ids. processAttendanceCommand typeError students (Inr response) =
                 Inr (Some \<lparr>status = st, studentIds = ids\<rparr>)"
  using processAttendanceCommand_valid [OF assms, of typeError students] by blast

text \<open>A status outside the enumerated set comes back as it was sent.\<close>

theorem status_passed_through_verbatim_witness:
  "first_call (tool_invocation (Some ''Excused (sick)'') (Some [''Juan'']))
     = Some \<lparr>call_name = ''update_attendance'',
             args = Some \<lparr>args_status = Some ''Excused (sick)'',
                          student_names = Some [''Juan'']\<rparr>\<rparr>
   \<and> ''Excused (sick)'' \<noteq> []
   \<and> ''Excused (sick)'' \<notin> {''present'', ''absent'', ''late''}
   \<and> (\<exists>ids. processAttendanceCommand sample_type_error scenario_roster
          (Inr (tool_invocation (Some ''Excused (sick)'') (Some [''Juan''])))
         = Inr (Some \<lparr>status = ''Excused (sick)'', studentIds = ids\<rparr>))"
proof -
  have v: "''Excused (sick)'' \<noteq> []" by simp
  from status_passed_through_verbatim [OF first_call_tool_invocation tool_call_args _ v,
         where names = "[''Juan'']" and students = scenario_roster
           and typeError = sample_type_error]
  have "\<exists>ids. processAttendanceCommand sample_type_error scenario_roster
          (Inr (tool_invocation (Some ''Excused (sick)'') (Some [''Juan''])))
         = Inr (Some \<lparr>status = ''Excused (sick)'', studentIds = ids\<rparr>)"
    by simp
  then show ?thesis
    by (simp add: first_call_tool_invocation)
qed

section \<open>The empty candidate\<close>

text \<open>
  Claim C9. The empty string is a substring of every name, so on a non-empty roster
  the empty candidate matches the first entry and \<open>students.find\<close> selects it; an invocation
  that passes the argument check and whose \<open>student_names\<close> holds the empty string
  therefore returns a list containing the first entry's identifier.
\<close>

theorem empty_candidate_selects_first_entry:
  assumes "first_call response = Some call" and "args call = Some a"
    and "args_status a = Some st" and "st \<noteq> []"
    and "student_names a = Some names"
    and "[] \<in> set names"
  shows "name_matches (toLowerCase []) s0
         \<and> find_student (s0 # rest) (toLowerCase []) = Some s0
         \<and> (\<exists>ids. processAttendanceCommand typeError (s0 # rest) (Inr response) =
                     Inr (Some \<lparr>status = st, studentIds = ids\<rparr>)
               \<and> sid s0 \<in> set ids)"
proof -
  have "sid s0 \<in> set (map sid (s0 # rest))" by simp
  moreover from assms(6) have "\<exists>n\<in>set names. find_student (s0 # rest) (toLowerCase n) = Some s0"
    by (rule bexI [rotated]) (simp add: toLowerCase_Nil find_student_empty_candidate)
  then have "sid s0 \<in> set (resolve_names (s0 # rest) (map toLowerCase names) [])"
    by (auto simp: set_resolve_names)
  ultimately show ?thesis
    using processAttendanceCommand_valid [OF assms(1-5), of typeError "s0 # rest"]
    by (simp add: toLowerCase_Nil find_student_empty_candidate name_matches_empty)
qed

text \<open>On the scenario roster the empty candidate adds Juan Dela Cruz.\<close>

theorem empty_candidate_selects_first_entry_witness:
  "first_call (tool_invocation (Some ''late'') (Some [''Maria'', '''']))
     = Some \<lparr>call_name = ''update_attendance'',
             args = Some \<lparr>args_status = Some ''late'',
                          student_names = Some [''Maria'', '''']\<rparr>\<rparr>
   \<and> ''late'' \<noteq> [] \<and> [] \<in> set [''Maria'', '''']
   \<and> find_student scenario_roster (toLowerCase [])
       = Some \<lparr>sid = ''s1'', firstName = ''Juan'', lastName = ''Dela Cruz''\<rparr>
   \<and> (\<exists>ids. processAttendanceCommand sample_type_error scenario_roster
          (Inr (tool_invocation (Some ''late'') (Some [''Maria'', ''''])))
         = Inr (Some \<lparr>status = ''late'', studentIds = ids\<rparr>) \<and> ''s1'' \<in> set ids)"
proof -
  have v: "''late'' \<noteq> []" and m: "[] \<in> set [''Maria'', '''']" by simp_all
  from empty_candidate_selects_first_entry
         [OF first_call_tool_invocation tool_call_args _ v _ m,
          where ?s0.0 = "\<lparr>sid = ''s1'', firstName = ''Juan'', lastName = ''Dela Cruz''\<rparr>"
            and rest = "[\<lparr>sid = ''s2'', firstName = ''Maria'', lastName = ''Santos''\<rparr>,
                         \<lparr>sid = ''s3'', firstName = ''Ana'', lastName = ''Gomez''\<rparr>]"
            and typeError = sample_type_error]
  show ?thesis
    by (simp add: first_call_tool_invocation scenario_roster_def)
qed

section \<open>Falsy arguments\<close>

text \<open>
  Claim C10. The argument check is \<open>!args.status || !args.student_names\<close>. A status that
  is the empty string is falsy, so the resolver returns \<open>null\<close>; an empty array is truthy,
  so an invocation with a non-empty status and an empty \<open>student_names\<close> is accepted and
  yields the status with an empty identifier list.
\<close>

theorem empty_status_rejected_empty_names_accepted:
  "(first_call response = Some call \<and> args call = Some a \<and> args_status a = Some []
      \<longrightarrow> processAttendanceCommand typeError students (Inr response) = Inr None)
   \<and> (first_call response' = Some call' \<and> args call' = Some a'
        \<and> args_status a' = Some st \<and> st \<noteq> [] \<and> student_names a' = Some []
      \<longrightarrow> processAttendanceCommand typeError students (Inr response') =
            Inr (Some \<lparr>status = st, studentIds = []\<rparr>))"
  by (auto simp: processAttendanceCommand_def split: option.splits)

text \<open>An empty status with a name gives \<open>null\<close>; the status \<open>late\<close> with no name gives an empty list.\<close>

theorem empty_status_rejected_empty_names_accepted_witness:
  "first_call (tool_invocation (Some '''') (Some [''Ana'']))
     = Some \<lparr>call_name = ''update_attendance'',
             args = Some \<lparr>args_status = Some '''', student_names = Some [''Ana'']\<rparr>\<rparr>
   \<and> processAttendanceCommand sample_type_error scenario_roster
       (Inr (tool_invocation (Some '''') (Some [''Ana'']))) = Inr None
   \<and> first_call (tool_invocation (Some ''late'') (Some []))
     = Some \<lparr>call_name = ''update_attendance'',
             args = Some \<lparr>args_status = Some ''late'', student_names = Some []\<rparr>\<rparr>
   \<and> ''late'' \<noteq> []
   \<and> processAttendanceCommand sample_type_error scenario_roster
       (Inr (tool_invocation (Some ''late'') (Some []))) =
         Inr (Some \<lparr>status = ''late'', studentIds = []\<rparr>)"
  using empty_status_rejected_empty_names_accepted
          [where response = "tool_invocation (Some '''') (Some [''Ana''])"
             and call = "\<lparr>call_name = ''update_attendance'',
                           args = Some \<lparr>args_status = Some '''', student_names = Some [''Ana'']\<rparr>\<rparr>"
             and a = "\<lparr>args_status = Some '''', student_names = Some [''Ana'']\<rparr>"
             and students = scenario_roster and typeError = sample_type_error
             and response' = "tool_invocation (Some ''late'') (Some [])"
             and call' = "\<lparr>call_name = ''update_attendance'',
                            args = Some \<lparr>args_status = Some ''late'', student_names = Some []\<rparr>\<rparr>"
             and a' = "\<lparr>args_status = Some ''late'', student_names = Some []\<rparr>"
             and st = "''late''"]
  by (simp add: first_call_tool_invocation)

section \<open>Classification of errors\<close>

text \<open>
  Claim C6, as the code has it. The rules are tried in the order of the source against
  the lower-cased message: a message that contains \<open>api key not valid\<close> or
  \<open>API_KEY_INVALID\<close> in any case gives the credential message; otherwise one that
  contains \<open>quota\<close> in any case gives the quota message; otherwise one that contains
  \<open>failed to call the ai service\<close> in any case gives the communication message; any
  other message string, the empty one included, gives \<open>AI Error: \<close> followed by the
  original text; and an error that is absent or has no message string gives the fixed
  generic message.
\<close>

theorem error_classification_in_code_order:
  "handleGeminiError error functionName =
     (case error of
        None \<Rightarrow> ''An AI feature failed. Please try again. If the problem persists, check your connection or the server logs.''
      | Some e \<Rightarrow>
          (case message e of
             None \<Rightarrow> ''An AI feature failed. Please try again. If the problem persists, check your connection or the server logs.''
           | Some m \<Rightarrow>
               if contains_in_any_case m ''api key not valid'' \<or> contains_in_any_case m ''API_KEY_INVALID''
               then ''AI Error: The API key configured on the server is invalid.''
               else if contains_in_any_case m ''quota''
               then ''AI Error: API quota exceeded. Please check your billing details.''
               else if contains_in_any_case m ''failed to call the ai service''
               then ''AI Communication Error: Could not connect to the secure AI proxy. Please check your network connection.''
               else ''AI Error: '' @ m))"
  unfolding handleGeminiError_def Let_def includes_keyword_iff ..

text \<open>A quota error of the provider, in mixed case.\<close>

theorem error_classification_in_code_order_witness:
  "contains_in_any_case ''RESOURCE_EXHAUSTED: Quota exceeded'' ''quota''
   \<and> \<not> contains_in_any_case ''RESOURCE_EXHAUSTED: Quota exceeded'' ''api key not valid''
   \<and> \<not> contains_in_any_case ''RESOURCE_EXHAUSTED: Quota exceeded'' ''API_KEY_INVALID''
   \<and> handleGeminiError (Some \<lparr>message = Some ''RESOURCE_EXHAUSTED: Quota exceeded''\<rparr>)
         ''checkApiStatus''
       = ''AI Error: API quota exceeded. Please check your billing details.''"
proof -
  have "contains_in_any_case ''RESOURCE_EXHAUSTED: Quota exceeded'' ''quota''"
    and "\<not> contains_in_any_case ''RESOURCE_EXHAUSTED: Quota exceeded'' ''api key not valid''"
    and "\<not> contains_in_any_case ''RESOURCE_EXHAUSTED: Quota exceeded'' ''API_KEY_INVALID''"
    by (simp_all add: includes_keyword_iff [symmetric] lower_eval)
  with error_classification_in_code_order
         [of "Some \<lparr>message = Some ''RESOURCE_EXHAUSTED: Quota exceeded''\<rparr>" "''checkApiStatus''"]
  show ?thesis by simp
qed

text \<open>
  The claim as stated fails twice. It puts the quota rule first, yet a message that
  mentions both the quota and an invalid key is classified as a credential error. And it
  has every message without \<open>quota\<close> and without the key phrases wrapped verbatim, yet the
  message \<open>callApiProxy\<close> throws when the proxy gives no detail is turned into the
  communication message.
\<close>

theorem error_classification_counterexample:
  "handleGeminiError (Some \<lparr>message = Some ''Quota lookup failed: API_KEY_INVALID''\<rparr>)
       ''checkApiStatus''
     = ''AI Error: The API key configured on the server is invalid.''
   \<and> handleGeminiError (Some \<lparr>message = Some ''Quota lookup failed: API_KEY_INVALID''\<rparr>)
       ''checkApiStatus''
     \<noteq> ''AI Error: API quota exceeded. Please check your billing details.''
   \<and> handleGeminiError (Some \<lparr>message = Some ''Failed to call the AI service via proxy.''\<rparr>)
       ''checkApiStatus''
     = ''AI Communication Error: Could not connect to the secure AI proxy. Please check your network connection.''
   \<and> handleGeminiError (Some \<lparr>message = Some ''Failed to call the AI service via proxy.''\<rparr>)
       ''checkApiStatus''
     \<noteq> ''AI Error: Failed to call the AI service via proxy.''"
  by (simp add: handleGeminiError_def lower_eval)

section \<open>The proxy route\<close>

text \<open>
  Claim C7. A request whose method is not \<open>POST\<close> is answered with 405. A \<open>POST\<close> that
  fails is answered with 500 and the body \<open>{error, details}\<close>, where \<open>details\<close> is the message
  of the error: the fixed configuration message when the credential is unset or empty,
  and the message of the error the provider call threw otherwise. A \<open>POST\<close> whose provider
  call returns is answered with 200 and the provider's response as the body.
\<close>

theorem proxy_route_responses:
  "(http_method req \<noteq> ''POST'' \<longrightarrow>
      handler API_KEY generateContent req =
        \<lparr>statusCode = 405, json = Error_json ''Method not allowed''\<rparr>)
   \<and> (http_method req = ''POST'' \<and> (API_KEY = None \<or> API_KEY = Some []) \<longrightarrow>
      handler API_KEY generateContent req =
        \<lparr>statusCode = 500,
         json = Error_details_json ''An error occurred while communicating with the AI service.''
                  (Some ''API_KEY is not set in environment variables.'')\<rparr>)
   \<and> (http_method req = ''POST'' \<and> API_KEY = Some apiKey \<and> apiKey \<noteq> []
        \<and> generateContent apiKey (body req) = Inl error \<longrightarrow>
      handler API_KEY generateContent req =
        \<lparr>statusCode = 500,
         json = Error_details_json ''An error occurred while communicating with the AI service.''
                  (message error)\<rparr>)
   \<and> (http_method req = ''POST'' \<and> API_KEY = Some apiKey \<and> apiKey \<noteq> []
        \<and> generateContent apiKey (body req) = Inr response \<longrightarrow>
      handler API_KEY generateContent req =
        \<lparr>statusCode = 200, json = Response_json response\<rparr>)"
  by (auto simp: handler_def)


text \<open>A \<open>GET\<close>, a \<open>POST\<close> without credential, a provider failure and a provider success.\<close>

theorem proxy_route_responses_witness:
  "http_method \<lparr>http_method = ''GET'', body = ''{}''\<rparr> \<noteq> ''POST''
   \<and> handler None (\<lambda>k b. Inr (''echo '' @ b)) \<lparr>http_method = ''GET'', body = ''{}''\<rparr>
       = \<lparr>statusCode = 405, json = Error_json ''Method not allowed''\<rparr>
   \<and> handler None (\<lambda>k b. Inr (''echo '' @ b)) \<lparr>http_method = ''POST'', body = ''{}''\<rparr>
       = \<lparr>statusCode = 500,
          json = Error_details_json ''An error occurred while communicating with the AI service.''
                   (Some ''API_KEY is not set in environment variables.'')\<rparr>
   \<and> handler (Some ''k1'') (\<lambda>k b. Inl \<lparr>message = Some ''503 overloaded''\<rparr>)
         \<lparr>http_method = ''POST'', body = ''{}''\<rparr>
       = (\<lparr>statusCode = 500,
           json = Error_details_json ''An error occurred while communicating with the AI service.''
                    (Some ''503 overloaded'')\<rparr> :: string http_response)
   \<and> handler (Some ''k1'') (\<lambda>k b. Inr (''echo '' @ b)) \<lparr>http_method = ''POST'', body = ''{}''\<rparr>
       = \<lparr>statusCode = 200, json = Response_json ''echo {}''\<rparr>"
  using proxy_route_responses
          [where req = "\<lparr>http_method = ''GET'', body = ''{}''\<rparr>" and API_KEY = None
             and generateContent = "\<lambda>k b. Inr (''echo '' @ b)"]
        proxy_route_responses
          [where req = "\<lparr>http_method = ''POST'', body = ''{}''\<rparr>" and API_KEY = None
             and generateContent = "\<lambda>k b. Inr (''echo '' @ b)"]
        proxy_route_responses
          [where req = "\<lparr>http_method = ''POST'', body = ''{}''\<rparr>" and API_KEY = "Some ''k1''"
             and generateContent = "\<lambda>k b. Inl \<lparr>message = Some ''503 overloaded''\<rparr>"
             and apiKey = "''k1''" and error = "\<lparr>message = Some ''503 overloaded''\<rparr>"]
        proxy_route_responses
          [where req = "\<lparr>http_method = ''POST'', body = ''{}''\<rparr>" and API_KEY = "Some ''k1''"
             and generateContent = "\<lambda>k b. Inr (''echo '' @ b)"
             and apiKey = "''k1''" and response = "''echo {}''"]
  by simp

end
